theory Spec2Isabelle
  imports Complex_Main
begin

section \<open>The batch planning script \<^verbatim>\<open>improve-batch-process.py\<close>\<close>

text \<open>
  The script reads a chapter file (JSON), takes \<^verbatim>\<open>data['meta']['sentenceCount']\<close>,
  divides it by a batch size and prints how many full batches and how many left-over
  sentences result. Python integers are unbounded, so they are \<^typ>\<open>int\<close>; Python's
  \<^verbatim>\<open>//\<close> and \<^verbatim>\<open>%\<close> on integers round towards minus infinity, as
  \<^term>\<open>(div)\<close> and \<^term>\<open>(mod)\<close> on \<^typ>\<open>int\<close> do.

  The computation is at lines 31 and 32 of \<^verbatim>\<open>improved_batch_workflow\<close>, and these
  two lines are what is modelled. The file as stored does not compile: line 37 opens a
  string literal that the end of the line leaves unterminated, and the calls on line 38
  lack their closing parentheses. Every run of the script therefore ends in a
  \<open>SyntaxError\<close> before its first statement, so nothing is stated here about a run of
  the whole function or of the command line (lines 43 to 51).
\<close>

subsection \<open>Exceptions\<close>

text \<open>
  The exceptions the script can end with. \<open>SystemExit n\<close> is what \<^verbatim>\<open>sys.exit(n)\<close>
  raises; \<open>OSError\<close> stands for a failing \<^verbatim>\<open>open\<close>, \<open>JSONDecodeError\<close> for a failing
  \<^verbatim>\<open>json.load\<close>, \<open>ValueError\<close> for a failing \<^verbatim>\<open>int(...)\<close>.
\<close>

datatype py_error =
    ZeroDivisionError
  | TypeError
  | KeyError
  | ValueError
  | OSError
  | JSONDecodeError
  | SystemExit int

subsection \<open>Integer division and modulo (lines 31 and 32)\<close>

text \<open>\<^verbatim>\<open>a // b\<close> on Python integers: raises \<open>ZeroDivisionError\<close> when \<open>b\<close> is zero.\<close>

definition py_floordiv :: "int \<Rightarrow> int \<Rightarrow> py_error + int" where
  "py_floordiv a b = (if b = 0 then Inl ZeroDivisionError else Inr (a div b))"

text \<open>\<^verbatim>\<open>a % b\<close> on Python integers: raises \<open>ZeroDivisionError\<close> when \<open>b\<close> is zero.\<close>

definition py_mod :: "int \<Rightarrow> int \<Rightarrow> py_error + int" where
  "py_mod a b = (if b = 0 then Inl ZeroDivisionError else Inr (a mod b))"

text \<open>The two local variables that lines 31 and 32 assign.\<close>

record batching =
  full_batches :: int
  remainder :: int

text \<open>
  Lines 31 and 32, in order:
  \<^verbatim>\<open>full_batches = total_sentences // batch_size\<close>, then
  \<^verbatim>\<open>remainder = total_sentences % batch_size\<close>.
  Nothing is checked before the division; the first statement that raises ends the
  computation.
\<close>

definition calculate_batching :: "int \<Rightarrow> int \<Rightarrow> py_error + batching" where
  "calculate_batching total_sentences batch_size =
     (case py_floordiv total_sentences batch_size of
        Inl e \<Rightarrow> Inl e
      | Inr fb \<Rightarrow>
          (case py_mod total_sentences batch_size of
             Inl e \<Rightarrow> Inl e
           | Inr r \<Rightarrow> Inr \<lparr>full_batches = fb, remainder = r\<rparr>))"

subsection \<open>Lines 31 and 32 as statements\<close>

text \<open>
  The two lines are assignment statements of \<^verbatim>\<open>improved_batch_workflow\<close>; they
  contain no call, so the local variables of the function are the only state within
  their reach. A frame gives the integer local variables by name. When line 31 is
  reached both operands are bound: \<^verbatim>\<open>batch_size\<close> is a parameter and
  \<^verbatim>\<open>total_sentences\<close> is assigned at line 27. An exception ends the function
  and its frame with it.
\<close>

type_synonym frame = "string \<Rightarrow> int"

text \<open>Line 31: \<^verbatim>\<open>full_batches = total_sentences // batch_size\<close>.\<close>

definition line_31 :: "frame \<Rightarrow> py_error + frame" where
  "line_31 s =
     (case py_floordiv (s ''total_sentences'') (s ''batch_size'') of
        Inl e \<Rightarrow> Inl e
      | Inr q \<Rightarrow> Inr (s(''full_batches'' := q)))"

text \<open>Line 32: \<^verbatim>\<open>remainder = total_sentences % batch_size\<close>.\<close>

definition line_32 :: "frame \<Rightarrow> py_error + frame" where
  "line_32 s =
     (case py_mod (s ''total_sentences'') (s ''batch_size'') of
        Inl e \<Rightarrow> Inl e
      | Inr r \<Rightarrow> Inr (s(''remainder'' := r)))"

text \<open>Line 31, then line 32 on the frame that line 31 leaves.\<close>

definition lines_31_32 :: "frame \<Rightarrow> py_error + frame" where
  "lines_31_32 s = (case line_31 s of Inl e \<Rightarrow> Inl e | Inr s1 \<Rightarrow> line_32 s1)"

text \<open>The plan held by a frame: its two result variables.\<close>

definition plan_of :: "frame \<Rightarrow> batching" where
  "plan_of s = \<lparr>full_batches = s ''full_batches'', remainder = s ''remainder''\<rparr>"

subsection \<open>The plan in the words of the specification\<close>

text \<open>
  The specification's \<open>fullBatchCount\<close> is the floor of the quotient
  \<open>sentenceCount / batchSize\<close>, and its \<open>remainder\<close> is \<open>sentenceCount\<close> modulo
  \<open>batchSize\<close>, both for a count that is not negative and a size that is positive:
  here the floor of the real quotient and the remainder of natural numbers.
\<close>

definition spec_plan :: "int \<Rightarrow> int \<Rightarrow> batching" where
  "spec_plan sentenceCount batchSize =
     \<lparr>full_batches = \<lfloor>real_of_int sentenceCount / real_of_int batchSize\<rfloor>,
      remainder = int (nat sentenceCount mod nat batchSize)\<rparr>"


section \<open>Properties\<close>

subsection \<open>Auxiliary facts\<close>

lemma calculate_batching_eq:
  "calculate_batching n b =
     (if b = 0 then Inl ZeroDivisionError
      else Inr \<lparr>full_batches = n div b, remainder = n mod b\<rparr>)"
  by (simp add: calculate_batching_def py_floordiv_def py_mod_def)

lemma spec_plan_eq:
  assumes "0 \<le> n" and "1 \<le> b"
  shows "spec_plan n b = \<lparr>full_batches = n div b, remainder = n mod b\<rparr>"
  using assms by (simp add: spec_plan_def floor_divide_of_int_eq zmod_int)

lemma lines_31_32_eq:
  "lines_31_32 s =
     (if s ''batch_size'' = 0 then Inl ZeroDivisionError
      else Inr (s(''full_batches'' := s ''total_sentences'' div s ''batch_size'',
                  ''remainder'' := s ''total_sentences'' mod s ''batch_size'')))"
  by (simp add: lines_31_32_def line_31_def line_32_def py_floordiv_def py_mod_def)

subsection \<open>The batching of lines 31 and 32\<close>

text \<open>
  Claim C1. For every sentence count that is not negative and every batch size of at
  least 1, the computation returns a plan, and in it the number of full batches times
  the batch size plus the remainder is the sentence count, with the remainder at least
  0 and below the batch size.
\<close>

theorem batching_invariant:
  assumes "0 \<le> sentenceCount" and "1 \<le> batchSize"
  shows "\<exists>p. calculate_batching sentenceCount batchSize = Inr p
           \<and> full_batches p * batchSize + remainder p = sentenceCount
           \<and> 0 \<le> remainder p \<and> remainder p < batchSize"
  using assms by (simp add: calculate_batching_eq)

theorem batching_invariant_witness:
  "(0::int) \<le> 100 \<and> (1::int) \<le> 15 \<and>
   (\<exists>p. calculate_batching 100 15 = Inr p
        \<and> full_batches p * 15 + remainder p = 100
        \<and> 0 \<le> remainder p \<and> remainder p < 15)"
  using batching_invariant [of 100 15] by simp

text \<open>
  Claim C2, as amended. For a batch size of 0 the computation raises
  \<open>ZeroDivisionError\<close>, whatever the sentence count. For a batch size below 0 it raises
  nothing: it returns a number of full batches and a remainder that lies above the batch
  size and is at most 0, and full batches times batch size plus remainder is still the
  sentence count.
\<close>

theorem nonpositive_batch_size:
  assumes "batch_size \<le> 0"
  shows "(batch_size = 0 \<longrightarrow>
            calculate_batching total_sentences batch_size = Inl ZeroDivisionError) \<and>
         (batch_size < 0 \<longrightarrow>
            (\<exists>p. calculate_batching total_sentences batch_size = Inr p
               \<and> full_batches p * batch_size + remainder p = total_sentences
               \<and> batch_size < remainder p \<and> remainder p \<le> 0))"
  by (simp add: calculate_batching_eq)

theorem nonpositive_batch_size_witness:
  "(0::int) \<le> 0 \<and> calculate_batching 7 0 = Inl ZeroDivisionError \<and> (-4::int) < 0 \<and>
   (\<exists>p. calculate_batching 7 (-4) = Inr p
        \<and> full_batches p * (-4) + remainder p = 7
        \<and> -4 < remainder p \<and> remainder p \<le> 0)"
  using nonpositive_batch_size [of 0 7] nonpositive_batch_size [of "-4" 7] by simp

text \<open>
  The claim as stated fails: \<^verbatim>\<open>10 // 0\<close> raises \<open>ZeroDivisionError\<close>, and with the
  batch size \<open>-3\<close> nothing is raised at all.
\<close>

theorem nonpositive_batch_size_counterexample:
  "calculate_batching 10 0 = Inl ZeroDivisionError \<and>
   calculate_batching 10 (-3) = Inr \<lparr>full_batches = -4, remainder = -2\<rparr>"
  by (simp add: calculate_batching_def py_floordiv_def py_mod_def)

text \<open>
  Claim C3, as amended. For every batch size of at least 1 and every sentence count
  below 0 the computation raises nothing: it returns a negative number of full batches
  and a remainder at least 0 and below the batch size, with full batches times batch
  size plus remainder equal to the sentence count.
\<close>

theorem negative_sentence_count:
  assumes "1 \<le> batch_size" and "total_sentences < 0"
  shows "\<exists>p. calculate_batching total_sentences batch_size = Inr p
           \<and> full_batches p < 0
           \<and> full_batches p * batch_size + remainder p = total_sentences
           \<and> 0 \<le> remainder p \<and> remainder p < batch_size"
  using assms by (simp add: calculate_batching_eq div_neg_pos_less0)

theorem negative_sentence_count_witness:
  "(1::int) \<le> 15 \<and> (-20::int) < 0 \<and>
   (\<exists>p. calculate_batching (-20) 15 = Inr p
        \<and> full_batches p < 0
        \<and> full_batches p * 15 + remainder p = -20
        \<and> 0 \<le> remainder p \<and> remainder p < 15)"
  using negative_sentence_count [of 15 "-20"] by simp

text \<open>The claim as stated fails: with the sentence count \<open>-1\<close> a plan is returned.\<close>

theorem negative_sentence_count_counterexample:
  "calculate_batching (-1) 15 = Inr \<lparr>full_batches = -1, remainder = 14\<rparr>"
  by (simp add: calculate_batching_def py_floordiv_def py_mod_def)

text \<open>
  Claim C4. For every sentence count that is not negative and every batch size of at
  least 1, the computed number of full batches is the floor of the quotient of sentence
  count and batch size, and the computed remainder is the sentence count modulo the
  batch size: the computation returns the plan of the specification, which is the pair
  of integer floor division and modulo.
\<close>

theorem batching_floor_and_modulo:
  assumes "0 \<le> sentenceCount" and "1 \<le> batchSize"
  shows "calculate_batching sentenceCount batchSize = Inr (spec_plan sentenceCount batchSize)
       \<and> spec_plan sentenceCount batchSize =
           \<lparr>full_batches = sentenceCount div batchSize,
            remainder = sentenceCount mod batchSize\<rparr>"
  using assms by (simp add: calculate_batching_eq spec_plan_eq)

theorem batching_floor_and_modulo_witness:
  "(0::int) \<le> 100 \<and> (1::int) \<le> 15
   \<and> calculate_batching 100 15 = Inr (spec_plan 100 15)
   \<and> spec_plan 100 15 = \<lparr>full_batches = 6, remainder = 10\<rparr>"
  using batching_floor_and_modulo [of 100 15] by simp

text \<open>
  Claim C6. The concrete cases: 100 sentences in batches of 15 give 6 full batches and
  remainder 10; 45 give 3 and 0; 0 give 0 and 0; 7 give 0 and 7.
\<close>

theorem batching_concrete_cases:
  "calculate_batching 100 15 = Inr \<lparr>full_batches = 6, remainder = 10\<rparr>
   \<and> calculate_batching 45 15 = Inr \<lparr>full_batches = 3, remainder = 0\<rparr>
   \<and> calculate_batching 0 15 = Inr \<lparr>full_batches = 0, remainder = 0\<rparr>
   \<and> calculate_batching 7 15 = Inr \<lparr>full_batches = 0, remainder = 7\<rparr>"
  by (simp add: calculate_batching_def py_floordiv_def py_mod_def)

text \<open>
  Claim C9. The computation validates nothing: with the batch size 0 it raises
  \<open>ZeroDivisionError\<close> for every sentence count, that is the only exception it raises
  and a zero batch size the only cause, so with a batch size of at least 1 it raises
  nothing.
\<close>

theorem batching_unguarded_division:
  "calculate_batching total_sentences 0 = Inl ZeroDivisionError \<and>
   (calculate_batching total_sentences batch_size = Inl e
      \<longleftrightarrow> batch_size = 0 \<and> e = ZeroDivisionError) \<and>
   (1 \<le> batch_size \<longrightarrow> (\<forall>e'. calculate_batching total_sentences batch_size \<noteq> Inl e'))"
  by (auto simp add: calculate_batching_eq)

theorem batching_unguarded_division_witness:
  "calculate_batching 10 0 = Inl ZeroDivisionError \<and> (1::int) \<le> 15 \<and>
   (\<forall>e'. calculate_batching 10 15 \<noteq> Inl e')"
  using batching_unguarded_division [of 10 15] batching_unguarded_division [of 10 0]
  by simp

text \<open>
  Claim C10. For every integer sentence count, negative ones included, and every batch
  size of at least 1, the computation raises nothing, and its results satisfy full
  batches times batch size plus remainder equal to the sentence count, with the
  remainder at least 0 and below the batch size.
\<close>

theorem batching_any_sentence_count:
  assumes "1 \<le> batch_size"
  shows "\<exists>p. calculate_batching total_sentences batch_size = Inr p
           \<and> full_batches p * batch_size + remainder p = total_sentences
           \<and> 0 \<le> remainder p \<and> remainder p < batch_size"
  using assms by (simp add: calculate_batching_eq)

theorem batching_any_sentence_count_witness:
  "(1::int) \<le> 15
   \<and> (\<exists>p. calculate_batching (-1) 15 = Inr p
          \<and> full_batches p * 15 + remainder p = -1
          \<and> 0 \<le> remainder p \<and> remainder p < 15)
   \<and> calculate_batching (-1) 15 = Inr \<lparr>full_batches = -1, remainder = 14\<rparr>"
  using batching_any_sentence_count [of 15 "-1"]
  by (simp add: calculate_batching_def py_floordiv_def py_mod_def)

subsection \<open>Determinism and effects of lines 31 and 32\<close>

text \<open>
  Claim C5. The plan computation is deterministic and idempotent and has no side
  effect. Run in two frames that hold the same sentence count and the same batch size,
  the two lines end the same way and leave the same plan, whatever else the frames
  hold: the outcome is that of \<open>calculate_batching\<close> on the two inputs. When they
  succeed, running them again in the frame they leave changes nothing, and every
  variable other than the two results \<^verbatim>\<open>full_batches\<close> and \<^verbatim>\<open>remainder\<close>
  keeps its value, the two inputs among them.
\<close>

theorem plan_deterministic_no_side_effects:
  "(s' ''total_sentences'' = s ''total_sentences'' \<and> s' ''batch_size'' = s ''batch_size''
      \<longrightarrow> map_sum id plan_of (lines_31_32 s') = map_sum id plan_of (lines_31_32 s)) \<and>
   map_sum id plan_of (lines_31_32 s) =
      calculate_batching (s ''total_sentences'') (s ''batch_size'') \<and>
   (\<forall>t. lines_31_32 s = Inr t \<longrightarrow>
        lines_31_32 t = Inr t \<and>
        (\<forall>x. x \<noteq> ''full_batches'' \<and> x \<noteq> ''remainder'' \<longrightarrow> t x = s x))"
proof (intro conjI allI impI)
  show "map_sum id plan_of (lines_31_32 s) =
      calculate_batching (s ''total_sentences'') (s ''batch_size'')"
    by (simp add: lines_31_32_eq calculate_batching_eq plan_of_def)
next
  assume "s' ''total_sentences'' = s ''total_sentences''
          \<and> s' ''batch_size'' = s ''batch_size''"
  then show "map_sum id plan_of (lines_31_32 s') = map_sum id plan_of (lines_31_32 s)"
    by (simp add: lines_31_32_eq plan_of_def)
next
  fix t
  assume t: "lines_31_32 s = Inr t"
  then have b: "s ''batch_size'' \<noteq> 0"
    and teq: "t = s(''full_batches'' := s ''total_sentences'' div s ''batch_size'',
                    ''remainder'' := s ''total_sentences'' mod s ''batch_size'')"
    by (auto simp add: lines_31_32_eq split: if_splits)
  show "lines_31_32 t = Inr t"
    using b by (simp add: lines_31_32_eq teq)
  fix x
  assume "x \<noteq> ''full_batches'' \<and> x \<noteq> ''remainder''"
  then show "t x = s x"
    by (simp add: teq)
qed

theorem plan_deterministic_no_side_effects_witness:
  "map_sum id plan_of
     (lines_31_32 ((\<lambda>x. 7)(''total_sentences'' := 100, ''batch_size'' := 15,
                           ''full_batches'' := 99)))
   = map_sum id plan_of
       (lines_31_32 ((\<lambda>x. 0)(''total_sentences'' := 100, ''batch_size'' := 15)))
   \<and> map_sum id plan_of
       (lines_31_32 ((\<lambda>x. 0)(''total_sentences'' := 100, ''batch_size'' := 15)))
     = Inr \<lparr>full_batches = 6, remainder = 10\<rparr>
   \<and> lines_31_32 ((\<lambda>x. 0)(''total_sentences'' := 100, ''batch_size'' := 15))
     = Inr ((\<lambda>x. 0)(''total_sentences'' := 100, ''batch_size'' := 15,
                      ''full_batches'' := 6, ''remainder'' := 10))
   \<and> lines_31_32 ((\<lambda>x. 0)(''total_sentences'' := 100, ''batch_size'' := 15,
                            ''full_batches'' := 6, ''remainder'' := 10))
     = Inr ((\<lambda>x. 0)(''total_sentences'' := 100, ''batch_size'' := 15,
                      ''full_batches'' := 6, ''remainder'' := 10))
   \<and> ((\<lambda>x. 0)(''total_sentences'' := 100, ''batch_size'' := 15,
                 ''full_batches'' := 6, ''remainder'' := 10)) ''total_sentences''
     = ((\<lambda>x. 0)(''total_sentences'' := (100::int), ''batch_size'' := 15))
         ''total_sentences''"
proof -
  let ?s = "(\<lambda>x. 0)(''total_sentences'' := 100, ''batch_size'' := (15::int))"
  let ?s' = "(\<lambda>x. 7)(''total_sentences'' := 100, ''batch_size'' := (15::int),
                      ''full_batches'' := 99)"
  let ?t = "(\<lambda>x. 0)(''total_sentences'' := 100, ''batch_size'' := (15::int),
                     ''full_batches'' := 6, ''remainder'' := 10)"
  note th = plan_deterministic_no_side_effects [of ?s' ?s]
  have r: "lines_31_32 ?s = Inr ?t"
    by (simp add: lines_31_32_def line_31_def line_32_def py_floordiv_def py_mod_def)
  have i: "?s' ''total_sentences'' = ?s ''total_sentences''
           \<and> ?s' ''batch_size'' = ?s ''batch_size''"
    by simp
  have n: "''total_sentences'' \<noteq> ''full_batches'' \<and> ''total_sentences'' \<noteq> ''remainder''"
    by simp
  note d = th [THEN conjunct1, THEN mp, OF i]
  note q = th [THEN conjunct2, THEN conjunct1]
  note a = th [THEN conjunct2, THEN conjunct2, THEN spec, THEN mp, OF r]
  note again = a [THEN conjunct1]
  note keep = a [THEN conjunct2, THEN spec, THEN mp, OF n]
  have c: "calculate_batching (?s ''total_sentences'') (?s ''batch_size'')
           = Inr \<lparr>full_batches = 6, remainder = 10\<rparr>"
    by (simp add: calculate_batching_def py_floordiv_def py_mod_def)
  have p: "map_sum id plan_of (lines_31_32 ?s) = Inr \<lparr>full_batches = 6, remainder = 10\<rparr>"
    using q c by (rule trans)
  show ?thesis
    using d p r again keep by (intro conjI)
qed

end
